theory Spec2Isabelle
  imports Main
begin

section \<open>Memory, allocators and locators\<close>

text \<open>
  The header \<^verbatim>\<open>smart_ptr_base.h\<close> defines two storage backends (\<^verbatim>\<open>_RefShm\<close>,
  \<^verbatim>\<open>_RefNoShm\<close>) and the wrapper \<^verbatim>\<open>smart_ptr_base<T, unique, destructable>\<close>.
  Raw pointers are addresses, \<open>0\<close> is \<^verbatim>\<open>nullptr\<close>. A member that was never written
  holds an indeterminate value: it is \<open>None\<close>, and a read that decides control
  flow or a call through it is the error \<open>IndeterminateRead\<close>. Copying such a member
  copies \<open>None\<close>. Member names are the source's without the trailing underscore
  (prefixed where two classes use the same name).
\<close>

type_synonym addr = nat

definition nullptr :: addr where
  "nullptr = 0"

datatype error =
    IndeterminateRead
  | InvalidPointer
  | InvalidFree
  | OutOfMemory
  | IllFormed

text \<open>
  The class \<^verbatim>\<open>Allocator\<close> (allocator.h) is used by the header but declared
  elsewhere. What the header needs of one allocator is taken as parameters: its id,
  its conversion of a raw pointer into a segment offset (used by \<^verbatim>\<open>shm_serialize\<close>),
  the conversion back (used when a locator is resolved), and the address its
  allocation algorithm picks next, given which addresses are live.
\<close>

record Allocator =
  GetId :: nat
  Convert :: "addr \<Rightarrow> nat"
  Convert_off :: "nat \<Rightarrow> addr"
  next_slot :: "(addr \<Rightarrow> bool) \<Rightarrow> addr"

text \<open>\<^verbatim>\<open>HERMES_MEMORY_REGISTRY\<close>: the process-wide registry of allocators, a parameter.\<close>

record MemoryRegistry =
  GetDefaultAllocator :: Allocator
  GetAllocator :: "nat \<Rightarrow> Allocator"

text \<open>
  \<^verbatim>\<open>TypedPointer<T>\<close> and \<^verbatim>\<open>TypedAtomicPointer<T>\<close>: both have the two members
  that \<^verbatim>\<open>shm_serialize\<close> writes; the template parameter \<^verbatim>\<open>PointerT\<close> ranges over them.
\<close>

record Pointer =
  allocator_id :: nat
  off :: nat

type_synonym TypedPointer = Pointer
type_synonym TypedAtomicPointer = Pointer

text \<open>\<^verbatim>\<open>ShmDeserialize<T>\<close>: the two members the header reads.\<close>

record ShmDeserialize =
  ar_header :: addr
  ar_alloc :: Allocator

text \<open>
  The memory: the live objects of the element type by address, and for each allocator
  (by id) the number of objects it has freed.
\<close>

record 'a memory =
  objs :: "addr \<rightharpoonup> 'a"
  frees :: "nat \<Rightarrow> nat"

text \<open>
  Modelled from the spec: \<^verbatim>\<open>Allocator::AllocateConstructObjs<T, OffsetPointer>(1, p, args...)\<close>
  (allocator.h is not part of the sources). The spec: it "allocates storage for exactly
  one object and constructs it with args"; a failure of the allocator is propagated.
  The argument \<open>v\<close> is the object that \<^verbatim>\<open>T(args...)\<close> constructs.
\<close>

definition AllocateConstructObjs ::
    "Allocator \<Rightarrow> 'a \<Rightarrow> 'a memory \<Rightarrow> error + addr \<times> 'a memory" where
  "AllocateConstructObjs alloc v h =
     (let p = next_slot alloc (\<lambda>q. objs h q \<noteq> None)
      in if p = nullptr \<or> objs h p \<noteq> None then Inl OutOfMemory
         else Inr (p, h\<lparr>objs := (objs h)(p \<mapsto> v)\<rparr>))"

text \<open>
  Modelled from the spec: \<^verbatim>\<open>Allocator::ConstructObj<T>(obj, args...)\<close>, construction
  in storage reserved elsewhere ("only construction runs").
\<close>

definition ConstructObj :: "addr \<Rightarrow> 'a \<Rightarrow> 'a memory \<Rightarrow> error + 'a memory" where
  "ConstructObj p v h =
     (if p = nullptr then Inl InvalidPointer else Inr (h\<lparr>objs := (objs h)(p \<mapsto> v)\<rparr>))"

text \<open>
  Modelled from the spec: \<^verbatim>\<open>Allocator::FreePtr<T>(ptr)\<close>, which "runs the destructor
  and frees storage". Freeing an address that holds no live object (a second free) is
  the error \<open>InvalidFree\<close>; the spec leaves it undefined.
\<close>

definition FreePtr :: "Allocator \<Rightarrow> addr \<Rightarrow> 'a memory \<Rightarrow> error + 'a memory" where
  "FreePtr alloc p h =
     (case objs h p of
        None \<Rightarrow> Inl InvalidFree
      | Some _ \<Rightarrow>
          Inr (h\<lparr>objs := (objs h)(p := None),
                 frees := (frees h)(GetId alloc := Suc (frees h (GetId alloc)))\<rparr>))"

text \<open>
  Modelled from the spec: the constructor of \<^verbatim>\<open>ShmDeserialize<T>\<close> from a locator
  (declared outside the sources). The spec: the resolution context is
  "(resolvedPointer, Allocator) built by resolving a locator through the registry".
\<close>

definition ShmDeserialize_of :: "MemoryRegistry \<Rightarrow> Pointer \<Rightarrow> ShmDeserialize" where
  "ShmDeserialize_of reg ar =
     (let a = GetAllocator reg (allocator_id ar)
      in \<lparr>ar_header = Convert_off a (off ar), ar_alloc = a\<rparr>)"

text \<open>
  The argument packs that \<^verbatim>\<open>shm_init(Args&& ...args)\<close> forwards, by the overload of
  \<^verbatim>\<open>_RefNoShm::shm_init\<close> they select: constructor arguments only; an allocator first;
  a \<^verbatim>\<open>ShmArchive<T>\<close> (the address of reserved storage) and an allocator first. The
  last component is the object that \<^verbatim>\<open>T\<close>'s constructor builds from the arguments.
\<close>

datatype 'a init_args =
    Args 'a
  | AllocArgs Allocator 'a
  | ArchiveArgs addr Allocator 'a

fun constructed :: "'a init_args \<Rightarrow> 'a" where
  "constructed (Args v) = v"
| "constructed (AllocArgs a v) = v"
| "constructed (ArchiveArgs p a v) = v"

section \<open>The backend for shared-memory element types: \<^verbatim>\<open>_RefShm\<close>\<close>

text \<open>
  The member functions of a shared-memory element type \<^verbatim>\<open>T\<close> that \<^verbatim>\<open>_RefShm\<close>
  calls. They belong to \<^verbatim>\<open>T\<close>, not to the header, and are parameters.
  \<open>T_construct\<close> is the constructor that \<^verbatim>\<open>Allocator::ConstructObj<T>\<close> runs in
  place on the forwarded arguments. \<open>T_shm_deserialize\<close> receives the previous content
  of the object it is called on (\<open>None\<close> before construction).
\<close>

record 'a ShmType =
  T_construct :: "'a init_args \<Rightarrow> 'a memory \<Rightarrow> error + 'a \<times> 'a memory"
  T_shm_deserialize :: "'a option \<Rightarrow> ShmDeserialize \<Rightarrow> 'a"
  GetShmDeserialize :: "'a \<Rightarrow> ShmDeserialize"
  T_shm_serialize :: "'a \<Rightarrow> Pointer \<Rightarrow> Pointer"
  SetHeaderOwned :: "'a \<Rightarrow> 'a"
  UnsetHeaderOwned :: "'a \<Rightarrow> 'a"
  T_shm_destroy :: "'a \<Rightarrow> 'a memory \<Rightarrow> error + 'a \<times> 'a memory"

text \<open>\<^verbatim>\<open>char obj_[sizeof(T)]\<close>: the object in place, \<open>None\<close> before it is constructed.\<close>

record 'a RefShm =
  RefShm_obj :: "'a option"

definition RefShm_uninit :: "'a RefShm" where
  "RefShm_uninit = \<lparr>RefShm_obj = None\<rparr>"

definition RefShm_shm_init ::
    "'a ShmType \<Rightarrow> 'a init_args \<Rightarrow> 'a RefShm \<Rightarrow> 'a memory \<Rightarrow>
     error + 'a RefShm \<times> 'a memory" where
  "RefShm_shm_init T args r h =
     (case T_construct T args h of
        Inl e \<Rightarrow> Inl e
      | Inr (x, h') \<Rightarrow> Inr (r\<lparr>RefShm_obj := Some x\<rparr>, h'))"

text \<open>\<^verbatim>\<open>get()\<close> points at the buffer; \<^verbatim>\<open>*get()\<close> reads the object in it.\<close>

definition RefShm_get :: "'a RefShm \<Rightarrow> 'a option" where
  "RefShm_get r = RefShm_obj r"

definition RefShm_deref :: "'a RefShm \<Rightarrow> 'a memory \<Rightarrow> error + 'a" where
  "RefShm_deref r h =
     (case RefShm_get r of None \<Rightarrow> Inl IndeterminateRead | Some x \<Rightarrow> Inr x)"

definition RefShm_shm_strong_copy ::
    "'a ShmType \<Rightarrow> 'a RefShm \<Rightarrow> 'a RefShm \<Rightarrow> error + 'a RefShm" where
  "RefShm_shm_strong_copy T r other =
     (case RefShm_get other of
        None \<Rightarrow> Inl IndeterminateRead
      | Some x \<Rightarrow>
          Inr (r\<lparr>RefShm_obj :=
                 Some (T_shm_deserialize T (RefShm_get r) (GetShmDeserialize T x))\<rparr>))"

definition RefShm_shm_deserialize ::
    "'a ShmType \<Rightarrow> ShmDeserialize \<Rightarrow> 'a RefShm \<Rightarrow> 'a RefShm" where
  "RefShm_shm_deserialize T ar r =
     r\<lparr>RefShm_obj := Some (T_shm_deserialize T (RefShm_get r) ar)\<rparr>"

text \<open>\<^verbatim>\<open>shm_deserialize(T &ar)\<close>: \<open>p\<close> is the address of the object referred to.\<close>

definition RefShm_shm_deserialize_obj ::
    "'a ShmType \<Rightarrow> addr \<Rightarrow> 'a memory \<Rightarrow> 'a RefShm \<Rightarrow> error + 'a RefShm" where
  "RefShm_shm_deserialize_obj T p h r =
     (case objs h p of
        None \<Rightarrow> Inl InvalidPointer
      | Some x \<Rightarrow>
          Inr (r\<lparr>RefShm_obj :=
                 Some (T_shm_deserialize T (RefShm_get r) (GetShmDeserialize T x))\<rparr>))"

definition RefShm_shm_serialize ::
    "'a ShmType \<Rightarrow> 'a RefShm \<Rightarrow> Pointer \<Rightarrow> error + Pointer" where
  "RefShm_shm_serialize T r ar =
     (case RefShm_get r of
        None \<Rightarrow> Inl IndeterminateRead
      | Some x \<Rightarrow> Inr (T_shm_serialize T x ar))"

definition RefShm_shm_destroy ::
    "bool \<Rightarrow> 'a ShmType \<Rightarrow> 'a RefShm \<Rightarrow> 'a memory \<Rightarrow> error + 'a RefShm \<times> 'a memory" where
  "RefShm_shm_destroy destructable T r h =
     (case RefShm_get r of
        None \<Rightarrow> Inl IndeterminateRead
      | Some x \<Rightarrow>
          (case T_shm_destroy T
                  (if destructable then SetHeaderOwned T x else UnsetHeaderOwned T x) h of
             Inl e \<Rightarrow> Inl e
           | Inr (x', h') \<Rightarrow> Inr (r\<lparr>RefShm_obj := Some x'\<rparr>, h')))"

section \<open>The backend for other element types: \<^verbatim>\<open>_RefNoShm\<close>\<close>

record RefNoShm =
  RefNoShm_obj :: "addr option"
  RefNoShm_alloc :: "Allocator option"

definition RefNoShm_uninit :: RefNoShm where
  "RefNoShm_uninit = \<lparr>RefNoShm_obj = None, RefNoShm_alloc = None\<rparr>"

text \<open>\<^verbatim>\<open>shm_init(Allocator *alloc, Args&& ...args)\<close>\<close>

definition RefNoShm_shm_init_alloc ::
    "Allocator \<Rightarrow> 'a \<Rightarrow> RefNoShm \<Rightarrow> 'a memory \<Rightarrow> error + RefNoShm \<times> 'a memory" where
  "RefNoShm_shm_init_alloc alloc v r h =
     (case AllocateConstructObjs alloc v h of
        Inl e \<Rightarrow> Inl e
      | Inr (p, h') \<Rightarrow> Inr (r\<lparr>RefNoShm_alloc := Some alloc, RefNoShm_obj := Some p\<rparr>, h'))"

text \<open>\<^verbatim>\<open>shm_init(Args&& ...args)\<close>: the default allocator.\<close>

definition RefNoShm_shm_init_default ::
    "MemoryRegistry \<Rightarrow> 'a \<Rightarrow> RefNoShm \<Rightarrow> 'a memory \<Rightarrow> error + RefNoShm \<times> 'a memory" where
  "RefNoShm_shm_init_default reg v r h =
     RefNoShm_shm_init_alloc (GetDefaultAllocator reg) v r h"

text \<open>\<^verbatim>\<open>shm_init(ShmArchive<T> &obj, Allocator *alloc, Args&& ...args)\<close>\<close>

definition RefNoShm_shm_init_archive ::
    "addr \<Rightarrow> Allocator \<Rightarrow> 'a \<Rightarrow> RefNoShm \<Rightarrow> 'a memory \<Rightarrow> error + RefNoShm \<times> 'a memory" where
  "RefNoShm_shm_init_archive obj alloc v r h =
     (case ConstructObj obj v h of
        Inl e \<Rightarrow> Inl e
      | Inr h' \<Rightarrow> Inr (r\<lparr>RefNoShm_alloc := Some alloc, RefNoShm_obj := Some obj\<rparr>, h'))"

fun RefNoShm_shm_init ::
    "MemoryRegistry \<Rightarrow> 'a init_args \<Rightarrow> RefNoShm \<Rightarrow> 'a memory \<Rightarrow> error + RefNoShm \<times> 'a memory" where
  "RefNoShm_shm_init reg (Args v) r h = RefNoShm_shm_init_default reg v r h"
| "RefNoShm_shm_init reg (AllocArgs alloc v) r h = RefNoShm_shm_init_alloc alloc v r h"
| "RefNoShm_shm_init reg (ArchiveArgs obj alloc v) r h = RefNoShm_shm_init_archive obj alloc v r h"

definition RefNoShm_get :: "RefNoShm \<Rightarrow> addr option" where
  "RefNoShm_get r = RefNoShm_obj r"

definition RefNoShm_deref :: "RefNoShm \<Rightarrow> 'a memory \<Rightarrow> error + 'a" where
  "RefNoShm_deref r h =
     (case RefNoShm_get r of
        None \<Rightarrow> Inl IndeterminateRead
      | Some p \<Rightarrow> (case objs h p of None \<Rightarrow> Inl InvalidPointer | Some x \<Rightarrow> Inr x))"

definition RefNoShm_shm_strong_copy :: "RefNoShm \<Rightarrow> RefNoShm \<Rightarrow> error + RefNoShm" where
  "RefNoShm_shm_strong_copy r other =
     Inr (r\<lparr>RefNoShm_obj := RefNoShm_obj other, RefNoShm_alloc := RefNoShm_alloc other\<rparr>)"

definition RefNoShm_shm_deserialize :: "ShmDeserialize \<Rightarrow> RefNoShm \<Rightarrow> RefNoShm" where
  "RefNoShm_shm_deserialize ar r =
     r\<lparr>RefNoShm_obj := Some (ar_header ar), RefNoShm_alloc := Some (ar_alloc ar)\<rparr>"

text \<open>\<^verbatim>\<open>shm_deserialize(T &ar)\<close>: only the pointer is set, \<^verbatim>\<open>alloc_\<close> is left as it was.\<close>

definition RefNoShm_shm_deserialize_obj ::
    "addr \<Rightarrow> 'a memory \<Rightarrow> RefNoShm \<Rightarrow> error + RefNoShm" where
  "RefNoShm_shm_deserialize_obj p h r = Inr (r\<lparr>RefNoShm_obj := Some p\<rparr>)"

definition RefNoShm_shm_serialize :: "RefNoShm \<Rightarrow> Pointer \<Rightarrow> error + Pointer" where
  "RefNoShm_shm_serialize r ar =
     (case RefNoShm_alloc r of
        None \<Rightarrow> Inl IndeterminateRead
      | Some a \<Rightarrow>
          (case RefNoShm_obj r of
             None \<Rightarrow> Inl IndeterminateRead
           | Some p \<Rightarrow> Inr (ar\<lparr>allocator_id := GetId a, off := Convert a p\<rparr>)))"

definition RefNoShm_shm_destroy ::
    "bool \<Rightarrow> RefNoShm \<Rightarrow> 'a memory \<Rightarrow> error + RefNoShm \<times> 'a memory" where
  "RefNoShm_shm_destroy destructable r h =
     (if destructable then
        (case RefNoShm_obj r of
           None \<Rightarrow> Inl IndeterminateRead
         | Some p \<Rightarrow>
             if p \<noteq> nullptr then
               (case RefNoShm_alloc r of
                  None \<Rightarrow> Inl IndeterminateRead
                | Some a \<Rightarrow>
                    (case FreePtr a p h of Inl e \<Rightarrow> Inl e | Inr h' \<Rightarrow> Inr (r, h')))
             else Inr (r, h))
      else Inr (r, h))"

section \<open>The wrapper: \<^verbatim>\<open>smart_ptr_base<T, unique, destructable>\<close>\<close>

text \<open>
  \<^verbatim>\<open>T_Ref\<close> is \<^verbatim>\<open>MAKE_REF_SHM_OR_NO_SHM(T, destructable)\<close>: one of the two backend
  classes, fixed by the element type. The wrapper is written once against the member
  functions both classes have; the instance chosen is passed as a record of these
  functions, the backend's state having the type \<open>'r\<close>.
\<close>

record ('r, 'a) T_Ref =
  uninit :: 'r
  ref_shm_init :: "MemoryRegistry \<Rightarrow> 'a init_args \<Rightarrow> 'r \<Rightarrow> 'a memory \<Rightarrow> error + 'r \<times> 'a memory"
  ref_deref :: "'r \<Rightarrow> 'a memory \<Rightarrow> error + 'a"
  ref_shm_strong_copy :: "'r \<Rightarrow> 'r \<Rightarrow> error + 'r"
  ref_shm_deserialize :: "ShmDeserialize \<Rightarrow> 'r \<Rightarrow> 'r"
  ref_shm_deserialize_obj :: "addr \<Rightarrow> 'a memory \<Rightarrow> 'r \<Rightarrow> error + 'r"
  ref_shm_serialize :: "'r \<Rightarrow> Pointer \<Rightarrow> error + Pointer"
  ref_shm_destroy :: "'r \<Rightarrow> 'a memory \<Rightarrow> error + 'r \<times> 'a memory"

text \<open>\<^verbatim>\<open>_RefShm<T, destructable>\<close> for a shared-memory element type \<open>T\<close>.\<close>

definition RefShm_T_Ref :: "'a ShmType \<Rightarrow> bool \<Rightarrow> ('a RefShm, 'a) T_Ref" where
  "RefShm_T_Ref T destructable =
     \<lparr>uninit = RefShm_uninit,
      ref_shm_init = (\<lambda>reg. RefShm_shm_init T),
      ref_deref = RefShm_deref,
      ref_shm_strong_copy = RefShm_shm_strong_copy T,
      ref_shm_deserialize = RefShm_shm_deserialize T,
      ref_shm_deserialize_obj = RefShm_shm_deserialize_obj T,
      ref_shm_serialize = RefShm_shm_serialize T,
      ref_shm_destroy = RefShm_shm_destroy destructable T\<rparr>"

text \<open>\<^verbatim>\<open>_RefNoShm<T, destructable>\<close>.\<close>

definition RefNoShm_T_Ref :: "bool \<Rightarrow> (RefNoShm, 'a) T_Ref" where
  "RefNoShm_T_Ref destructable =
     \<lparr>uninit = RefNoShm_uninit,
      ref_shm_init = RefNoShm_shm_init,
      ref_deref = RefNoShm_deref,
      ref_shm_strong_copy = RefNoShm_shm_strong_copy,
      ref_shm_deserialize = RefNoShm_shm_deserialize,
      ref_shm_deserialize_obj = RefNoShm_shm_deserialize_obj,
      ref_shm_serialize = RefNoShm_shm_serialize,
      ref_shm_destroy = RefNoShm_shm_destroy destructable\<rparr>"

text \<open>The template parameters \<^verbatim>\<open>unique\<close> and \<^verbatim>\<open>destructable\<close>, and the three aliases.\<close>

record flavor =
  unique :: bool
  destructable :: bool

definition mptr :: flavor where
  "mptr = \<lparr>unique = False, destructable = True\<rparr>"

definition Ref :: flavor where
  "Ref = \<lparr>unique = False, destructable = False\<rparr>"

definition uptr :: flavor where
  "uptr = \<lparr>unique = True, destructable = True\<rparr>"

record 'r smart_ptr_base =
  obj :: 'r
  owner :: "bool option"

text \<open>
  \<^verbatim>\<open>smart_ptr_base() = default\<close> under default-initialization (\<^verbatim>\<open>uptr<T> p;\<close>, as in
  \<^verbatim>\<open>make_ptr_base\<close>), and the members as the body of each user-provided constructor
  finds them: no member is written.
\<close>

definition smart_ptr_base_default ::
    "flavor \<Rightarrow> (bool \<Rightarrow> ('r, 'a) T_Ref) \<Rightarrow> 'r smart_ptr_base" where
  "smart_ptr_base_default fl B = \<lparr>obj = uninit (B (destructable fl)), owner = None\<rparr>"

text \<open>
  The constructor is defaulted on its first declaration, so it is not user-provided:
  value-initialization (\<^verbatim>\<open>uptr<T> p{}\<close>, \<^verbatim>\<open>uptr<T>()\<close>) and static storage
  zero-initialize the members first. \<open>z\<close> is the zero-initialized backend:
  for \<^verbatim>\<open>_RefNoShm\<close> both pointers are null (a null \<^verbatim>\<open>alloc_\<close> points at no allocator,
  which is \<open>None\<close> as well), for \<^verbatim>\<open>_RefShm\<close> the buffer holds no constructed object.
\<close>

definition RefNoShm_zeroed :: RefNoShm where
  "RefNoShm_zeroed = \<lparr>RefNoShm_obj = Some nullptr, RefNoShm_alloc = None\<rparr>"

definition RefShm_zeroed :: "'a RefShm" where
  "RefShm_zeroed = \<lparr>RefShm_obj = None\<rparr>"

definition smart_ptr_base_value_init :: "'r \<Rightarrow> 'r smart_ptr_base" where
  "smart_ptr_base_value_init z = \<lparr>obj = z, owner = Some False\<rparr>"

definition shm_init ::
    "flavor \<Rightarrow> (bool \<Rightarrow> ('r, 'a) T_Ref) \<Rightarrow> MemoryRegistry \<Rightarrow> 'a init_args \<Rightarrow>
     'r smart_ptr_base \<Rightarrow> 'a memory \<Rightarrow> error + 'r smart_ptr_base \<times> 'a memory" where
  "shm_init fl B reg args w h =
     (case ref_shm_init (B (destructable fl)) reg args (obj w) h of
        Inl e \<Rightarrow> Inl e
      | Inr (r, h') \<Rightarrow>
          Inr (if unique fl then w\<lparr>obj := r, owner := Some True\<rparr> else w\<lparr>obj := r\<rparr>, h'))"

text \<open>\<^verbatim>\<open>void shm_destroy()\<close>: the explicit destructor.\<close>

definition shm_destroy ::
    "flavor \<Rightarrow> (bool \<Rightarrow> ('r, 'a) T_Ref) \<Rightarrow> 'r smart_ptr_base \<Rightarrow> 'a memory \<Rightarrow>
     error + 'r smart_ptr_base \<times> 'a memory" where
  "shm_destroy fl B w h =
     (case ref_shm_destroy (B (destructable fl)) (obj w) h of
        Inl e \<Rightarrow> Inl e
      | Inr (r, h') \<Rightarrow> Inr (w\<lparr>obj := r\<rparr>, h'))"

text \<open>\<^verbatim>\<open>~smart_ptr_base()\<close>: the wrapper is gone afterwards, the memory remains.\<close>

definition dtor ::
    "flavor \<Rightarrow> (bool \<Rightarrow> ('r, 'a) T_Ref) \<Rightarrow> 'r smart_ptr_base \<Rightarrow> 'a memory \<Rightarrow>
     error + 'a memory" where
  "dtor fl B w h =
     (if unique fl then
        (case owner w of
           None \<Rightarrow> Inl IndeterminateRead
         | Some ow \<Rightarrow>
             if ow then
               (case shm_destroy fl B w h of Inl e \<Rightarrow> Inl e | Inr (w', h') \<Rightarrow> Inr h')
             else Inr h)
      else Inr h)"

text \<open>\<^verbatim>\<open>T& operator*()\<close>: \<^verbatim>\<open>*obj_.get()\<close>.\<close>

definition deref ::
    "flavor \<Rightarrow> (bool \<Rightarrow> ('r, 'a) T_Ref) \<Rightarrow> 'r smart_ptr_base \<Rightarrow> 'a memory \<Rightarrow> error + 'a" where
  "deref fl B w h = ref_deref (B (destructable fl)) (obj w) h"

text \<open>\<^verbatim>\<open>void shm_strong_copy(const smart_ptr_base &other)\<close>\<close>

definition shm_strong_copy ::
    "flavor \<Rightarrow> (bool \<Rightarrow> ('r, 'a) T_Ref) \<Rightarrow> 'r smart_ptr_base \<Rightarrow> 'r smart_ptr_base \<Rightarrow>
     error + 'r smart_ptr_base" where
  "shm_strong_copy fl B w other =
     (case ref_shm_strong_copy (B (destructable fl)) (obj w) (obj other) of
        Inl e \<Rightarrow> Inl e
      | Inr r \<Rightarrow>
          Inr (if unique fl then w\<lparr>obj := r, owner := owner other\<rparr> else w\<lparr>obj := r\<rparr>))"

text \<open>
  \<^verbatim>\<open>smart_ptr_base(const smart_ptr_base &other)\<close>: the body is
  \<^verbatim>\<open>obj_.shm_strong_copy(other.obj_)\<close>, the backend's copy alone.
\<close>

definition copy_ctor ::
    "flavor \<Rightarrow> (bool \<Rightarrow> ('r, 'a) T_Ref) \<Rightarrow> 'r smart_ptr_base \<Rightarrow> error + 'r smart_ptr_base" where
  "copy_ctor fl B other =
     (case ref_shm_strong_copy (B (destructable fl))
             (obj (smart_ptr_base_default fl B)) (obj other) of
        Inl e \<Rightarrow> Inl e
      | Inr r \<Rightarrow> Inr ((smart_ptr_base_default fl B)\<lparr>obj := r\<rparr>))"

text \<open>\<^verbatim>\<open>smart_ptr_base(smart_ptr_base&& other)\<close>: the wrapper's \<^verbatim>\<open>shm_strong_copy(other)\<close>.\<close>

definition move_ctor ::
    "flavor \<Rightarrow> (bool \<Rightarrow> ('r, 'a) T_Ref) \<Rightarrow> 'r smart_ptr_base \<Rightarrow> error + 'r smart_ptr_base" where
  "move_ctor fl B other = shm_strong_copy fl B (smart_ptr_base_default fl B) other"

text \<open>
  The assignment operators compare \<^verbatim>\<open>this\<close> with \<^verbatim>\<open>&other\<close>, so the wrappers are
  kept in a store by address; \<open>this\<close> and \<open>other\<close> are addresses of wrappers.
\<close>

type_synonym 'r wrappers = "nat \<rightharpoonup> 'r smart_ptr_base"

definition copy_assign ::
    "flavor \<Rightarrow> (bool \<Rightarrow> ('r, 'a) T_Ref) \<Rightarrow> nat \<Rightarrow> nat \<Rightarrow> 'r wrappers \<Rightarrow> error + 'r wrappers" where
  "copy_assign fl B this other ws =
     (if this \<noteq> other then
        (case ws this of
           None \<Rightarrow> Inl InvalidPointer
         | Some w \<Rightarrow>
             (case ws other of
                None \<Rightarrow> Inl InvalidPointer
              | Some ow \<Rightarrow>
                  (case shm_strong_copy fl B w ow of
                     Inl e \<Rightarrow> Inl e
                   | Inr w' \<Rightarrow> Inr (ws(this \<mapsto> w')))))
      else Inr ws)"

definition move_assign ::
    "flavor \<Rightarrow> (bool \<Rightarrow> ('r, 'a) T_Ref) \<Rightarrow> nat \<Rightarrow> nat \<Rightarrow> 'r wrappers \<Rightarrow> error + 'r wrappers" where
  "move_assign fl B this other ws =
     (if this \<noteq> other then
        (case ws this of
           None \<Rightarrow> Inl InvalidPointer
         | Some w \<Rightarrow>
             (case ws other of
                None \<Rightarrow> Inl InvalidPointer
              | Some ow \<Rightarrow>
                  (case shm_strong_copy fl B w ow of
                     Inl e \<Rightarrow> Inl e
                   | Inr w' \<Rightarrow> Inr (ws(this \<mapsto> w')))))
      else Inr ws)"

text \<open>\<^verbatim>\<open>void shm_deserialize(const ShmDeserialize<T> &ar)\<close>\<close>

definition shm_deserialize ::
    "flavor \<Rightarrow> (bool \<Rightarrow> ('r, 'a) T_Ref) \<Rightarrow> ShmDeserialize \<Rightarrow> 'r smart_ptr_base \<Rightarrow>
     'r smart_ptr_base" where
  "shm_deserialize fl B ar w =
     (let w' = w\<lparr>obj := ref_shm_deserialize (B (destructable fl)) ar (obj w)\<rparr>
      in if unique fl then w'\<lparr>owner := Some False\<rparr> else w')"

text \<open>\<^verbatim>\<open>void shm_deserialize(const TypedPointer<T> &ar)\<close>\<close>

definition shm_deserialize_TypedPointer ::
    "flavor \<Rightarrow> (bool \<Rightarrow> ('r, 'a) T_Ref) \<Rightarrow> MemoryRegistry \<Rightarrow> TypedPointer \<Rightarrow>
     'r smart_ptr_base \<Rightarrow> 'r smart_ptr_base" where
  "shm_deserialize_TypedPointer fl B reg ar w =
     (let deserial = ShmDeserialize_of reg ar in shm_deserialize fl B deserial w)"

text \<open>\<^verbatim>\<open>void shm_deserialize(const TypedAtomicPointer<T> &ar)\<close>\<close>

definition shm_deserialize_TypedAtomicPointer ::
    "flavor \<Rightarrow> (bool \<Rightarrow> ('r, 'a) T_Ref) \<Rightarrow> MemoryRegistry \<Rightarrow> TypedAtomicPointer \<Rightarrow>
     'r smart_ptr_base \<Rightarrow> 'r smart_ptr_base" where
  "shm_deserialize_TypedAtomicPointer fl B reg ar w =
     (let deserial = ShmDeserialize_of reg ar in shm_deserialize fl B deserial w)"

text \<open>\<^verbatim>\<open>void shm_deserialize(T &ar)\<close>: \<open>p\<close> is the address of the object referred to.\<close>

definition shm_deserialize_obj ::
    "flavor \<Rightarrow> (bool \<Rightarrow> ('r, 'a) T_Ref) \<Rightarrow> addr \<Rightarrow> 'a memory \<Rightarrow> 'r smart_ptr_base \<Rightarrow>
     error + 'r smart_ptr_base" where
  "shm_deserialize_obj fl B p h w =
     (case ref_shm_deserialize_obj (B (destructable fl)) p h (obj w) of
        Inl e \<Rightarrow> Inl e
      | Inr r \<Rightarrow> Inr (if unique fl then w\<lparr>obj := r, owner := Some False\<rparr> else w\<lparr>obj := r\<rparr>))"

text \<open>The five deserializing constructors, each on a wrapper whose members are unwritten.\<close>

definition ctor_TypedPointer ::
    "flavor \<Rightarrow> (bool \<Rightarrow> ('r, 'a) T_Ref) \<Rightarrow> MemoryRegistry \<Rightarrow> TypedPointer \<Rightarrow> 'r smart_ptr_base" where
  "ctor_TypedPointer fl B reg ar =
     shm_deserialize_TypedPointer fl B reg ar (smart_ptr_base_default fl B)"

definition ctor_TypedAtomicPointer ::
    "flavor \<Rightarrow> (bool \<Rightarrow> ('r, 'a) T_Ref) \<Rightarrow> MemoryRegistry \<Rightarrow> TypedAtomicPointer \<Rightarrow>
     'r smart_ptr_base" where
  "ctor_TypedAtomicPointer fl B reg ar =
     shm_deserialize_TypedAtomicPointer fl B reg ar (smart_ptr_base_default fl B)"

definition ctor_ShmArchive ::
    "flavor \<Rightarrow> (bool \<Rightarrow> ('r, 'a) T_Ref) \<Rightarrow> addr \<Rightarrow> Allocator \<Rightarrow> 'r smart_ptr_base" where
  "ctor_ShmArchive fl B ar a =
     shm_deserialize fl B \<lparr>ar_header = ar, ar_alloc = a\<rparr> (smart_ptr_base_default fl B)"

definition ctor_ShmDeserialize ::
    "flavor \<Rightarrow> (bool \<Rightarrow> ('r, 'a) T_Ref) \<Rightarrow> ShmDeserialize \<Rightarrow> 'r smart_ptr_base" where
  "ctor_ShmDeserialize fl B ar = shm_deserialize fl B ar (smart_ptr_base_default fl B)"

definition ctor_obj ::
    "flavor \<Rightarrow> (bool \<Rightarrow> ('r, 'a) T_Ref) \<Rightarrow> addr \<Rightarrow> 'a memory \<Rightarrow> error + 'r smart_ptr_base" where
  "ctor_obj fl B p h = shm_deserialize_obj fl B p h (smart_ptr_base_default fl B)"

text \<open>\<^verbatim>\<open>shm_serialize(TypedPointer<T> &ar)\<close> and \<^verbatim>\<open>shm_serialize(TypedAtomicPointer<T> &ar)\<close>\<close>

definition shm_serialize_TypedPointer ::
    "flavor \<Rightarrow> (bool \<Rightarrow> ('r, 'a) T_Ref) \<Rightarrow> 'r smart_ptr_base \<Rightarrow> TypedPointer \<Rightarrow>
     error + TypedPointer" where
  "shm_serialize_TypedPointer fl B w ar = ref_shm_serialize (B (destructable fl)) (obj w) ar"

definition shm_serialize_TypedAtomicPointer ::
    "flavor \<Rightarrow> (bool \<Rightarrow> ('r, 'a) T_Ref) \<Rightarrow> 'r smart_ptr_base \<Rightarrow> TypedAtomicPointer \<Rightarrow>
     error + TypedAtomicPointer" where
  "shm_serialize_TypedAtomicPointer fl B w ar =
     ref_shm_serialize (B (destructable fl)) (obj w) ar"

text \<open>
  \<^verbatim>\<open>size_t hash() const { return std::hash<T>{}(*this); }\<close>. Inside a member function
  \<^verbatim>\<open>this\<close> is a plain pointer to the wrapper, so \<^verbatim>\<open>*this\<close> is the wrapper itself;
  the wrapper's own \<^verbatim>\<open>operator*\<close> is not involved. \<^verbatim>\<open>std::hash<T>\<close> takes a
  \<^verbatim>\<open>const T&\<close>, so the call needs an implicit conversion of the wrapper into a \<^verbatim>\<open>T\<close>.
  The class declares no conversion function, so the conversion can only be a
  constructor of \<^verbatim>\<open>T\<close>; it is the parameter \<open>conv\<close>, \<open>None\<close> when \<^verbatim>\<open>T\<close> has none
  (the member function does not compile then). \<open>hash_T\<close> is \<^verbatim>\<open>std::hash<T>\<close>.
\<close>

definition hash ::
    "('a \<Rightarrow> nat) \<Rightarrow> ('r smart_ptr_base \<Rightarrow> 'a) option \<Rightarrow> 'r smart_ptr_base \<Rightarrow> error + nat" where
  "hash hash_T conv w =
     (case conv of None \<Rightarrow> Inl IllFormed | Some to_T \<Rightarrow> Inr (hash_T (to_T w)))"

text \<open>\<^verbatim>\<open>std::hash<mptr<T>>\<close> and \<^verbatim>\<open>std::hash<uptr<T>>\<close>: both return \<^verbatim>\<open>obj.hash()\<close>.\<close>

definition std_hash_mptr ::
    "('a \<Rightarrow> nat) \<Rightarrow> ('r smart_ptr_base \<Rightarrow> 'a) option \<Rightarrow> 'r smart_ptr_base \<Rightarrow> error + nat" where
  "std_hash_mptr hash_T conv w = hash hash_T conv w"

definition std_hash_uptr ::
    "('a \<Rightarrow> nat) \<Rightarrow> ('r smart_ptr_base \<Rightarrow> 'a) option \<Rightarrow> 'r smart_ptr_base \<Rightarrow> error + nat" where
  "std_hash_uptr hash_T conv w = hash hash_T conv w"

section \<open>Concrete inputs\<close>

text \<open>
  An allocator with id 1 whose segment starts at address 4096, a registry that knows
  only this allocator, and the memory before and after \<^verbatim>\<open>shm_init(5)\<close> of a
  default-constructed \<^verbatim>\<open>uptr<int>\<close>, which yields the wrapper \<open>example_owner\<close>;
  \<open>freed_memory\<close> is the memory once the allocator has freed that object.
\<close>

type_synonym int_backend = "bool \<Rightarrow> (RefNoShm, int) T_Ref"

definition example_alloc :: Allocator where
  "example_alloc =
     \<lparr>GetId = 1, Convert = (\<lambda>p. p - 4096), Convert_off = (\<lambda>off. off + 4096),
      next_slot = (\<lambda>live. if live 4104 then 4112 else 4104)\<rparr>"

definition example_reg :: MemoryRegistry where
  "example_reg = \<lparr>GetDefaultAllocator = example_alloc, GetAllocator = (\<lambda>i. example_alloc)\<rparr>"

definition empty_memory :: "int memory" where
  "empty_memory = \<lparr>objs = Map.empty, frees = (\<lambda>i. 0)\<rparr>"

definition example_owner :: "RefNoShm smart_ptr_base" where
  "example_owner =
     \<lparr>obj = \<lparr>RefNoShm_obj = Some 4104, RefNoShm_alloc = Some example_alloc\<rparr>,
      owner = Some True\<rparr>"

definition example_memory :: "int memory" where
  "example_memory = \<lparr>objs = [4104 \<mapsto> 5], frees = (\<lambda>i. 0)\<rparr>"

definition freed_memory :: "int memory" where
  "freed_memory = \<lparr>objs = Map.empty, frees = (\<lambda>i. 0)(1 := 1)\<rparr>"

text \<open>
  A shared-memory element type as a concrete input: a handle with a header-owned bit
  and a data-valid bit. Deserializing yields a handle that does not own its header;
  \<^verbatim>\<open>shm_destroy\<close> releases the data, which clears the data-valid bit.
\<close>

record toy =
  toy_header_owned :: bool
  toy_data_valid :: bool

definition toy_T :: "toy ShmType" where
  "toy_T =
     \<lparr>T_construct = (\<lambda>args h. Inr (constructed args, h)),
      T_shm_deserialize = (\<lambda>prev ar. \<lparr>toy_header_owned = False, toy_data_valid = True\<rparr>),
      GetShmDeserialize = (\<lambda>x. \<lparr>ar_header = 4104, ar_alloc = example_alloc\<rparr>),
      T_shm_serialize = (\<lambda>x ar. ar\<lparr>allocator_id := 1, off := 8\<rparr>),
      SetHeaderOwned = (\<lambda>x. x\<lparr>toy_header_owned := True\<rparr>),
      UnsetHeaderOwned = (\<lambda>x. x\<lparr>toy_header_owned := False\<rparr>),
      T_shm_destroy = (\<lambda>x h. Inr (x\<lparr>toy_data_valid := False\<rparr>, h))\<rparr>"

definition toy_memory :: "toy memory" where
  "toy_memory =
     \<lparr>objs = [4104 \<mapsto> \<lparr>toy_header_owned = True, toy_data_valid = True\<rparr>],
      frees = (\<lambda>i. 0)\<rparr>"

definition toy_ref :: "toy RefShm smart_ptr_base" where
  "toy_ref =
     \<lparr>obj = \<lparr>RefShm_obj = Some \<lparr>toy_header_owned = False, toy_data_valid = True\<rparr>\<rparr>,
      owner = None\<rparr>"

text \<open>
  A shared-memory element type that keeps a header in shared memory: its constructor
  allocates the header from \<open>example_alloc\<close>, and its \<^verbatim>\<open>shm_destroy\<close> frees the header
  when the handle owns it. \<open>boxed_owner\<close> and \<open>boxed_memory\<close> are the wrapper and the
  memory after \<^verbatim>\<open>shm_init\<close> of a default-initialized \<^verbatim>\<open>uptr\<close> over this type.
\<close>

record boxed =
  box_header :: addr
  box_owned :: bool

definition boxed_T :: "boxed ShmType" where
  "boxed_T =
     \<lparr>T_construct = (\<lambda>args h.
        case AllocateConstructObjs example_alloc (constructed args) h of
          Inl e \<Rightarrow> Inl e
        | Inr (p, h') \<Rightarrow> Inr ((constructed args)\<lparr>box_header := p\<rparr>, h')),
      T_shm_deserialize = (\<lambda>prev ar. \<lparr>box_header = ar_header ar, box_owned = False\<rparr>),
      GetShmDeserialize = (\<lambda>x. \<lparr>ar_header = box_header x, ar_alloc = example_alloc\<rparr>),
      T_shm_serialize = (\<lambda>x ar. ar\<lparr>allocator_id := 1, off := box_header x - 4096\<rparr>),
      SetHeaderOwned = (\<lambda>x. x\<lparr>box_owned := True\<rparr>),
      UnsetHeaderOwned = (\<lambda>x. x\<lparr>box_owned := False\<rparr>),
      T_shm_destroy = (\<lambda>x h.
        if box_owned x then
          (case FreePtr example_alloc (box_header x) h of
             Inl e \<Rightarrow> Inl e
           | Inr h' \<Rightarrow> Inr (x, h'))
        else Inr (x, h))\<rparr>"

definition boxed_owner :: "boxed RefShm smart_ptr_base" where
  "boxed_owner =
     \<lparr>obj = \<lparr>RefShm_obj = Some \<lparr>box_header = 4104, box_owned = False\<rparr>\<rparr>,
      owner = Some True\<rparr>"

definition boxed_memory :: "boxed memory" where
  "boxed_memory =
     \<lparr>objs = [4104 \<mapsto> \<lparr>box_header = 0, box_owned = False\<rparr>], frees = (\<lambda>i. 0)\<rparr>"

text \<open>
  The manual pointer that deserializing the locator of \<open>example_owner\<close> yields.
\<close>

definition example_manual :: "RefNoShm smart_ptr_base" where
  "example_manual =
     \<lparr>obj = \<lparr>RefNoShm_obj = Some 4104, RefNoShm_alloc = Some example_alloc\<rparr>,
      owner = None\<rparr>"

section \<open>Facts about the allocator and the backends\<close>

lemma FreePtr_live:
  "objs h p = Some v \<Longrightarrow>
   FreePtr a p h =
     Inr (h\<lparr>objs := (objs h)(p := None),
            frees := (frees h)(GetId a := Suc (frees h (GetId a)))\<rparr>)"
  by (simp add: FreePtr_def)

lemma FreePtr_dead: "objs h p = None \<Longrightarrow> FreePtr a p h = Inl InvalidFree"
  by (simp add: FreePtr_def)

lemma RefNoShm_shm_init_state:
  assumes "RefNoShm_shm_init reg args r h0 = Inr (r', h)"
  shows "\<exists>p a. RefNoShm_obj r' = Some p \<and> RefNoShm_alloc r' = Some a \<and> p \<noteq> nullptr \<and>
           objs h = (objs h0)(p \<mapsto> constructed args) \<and> frees h = frees h0"
proof (cases args)
  case (Args v)
  with assms show ?thesis
    by (auto simp: RefNoShm_shm_init_default_def RefNoShm_shm_init_alloc_def
        AllocateConstructObjs_def Let_def split: sum.splits if_splits)
next
  case (AllocArgs a v)
  with assms show ?thesis
    by (auto simp: RefNoShm_shm_init_alloc_def AllocateConstructObjs_def Let_def
        split: sum.splits if_splits)
next
  case (ArchiveArgs q a v)
  with assms show ?thesis
    by (auto simp: RefNoShm_shm_init_archive_def ConstructObj_def split: sum.splits if_splits)
qed

lemma shm_init_NoShm_state:
  assumes "shm_init fl RefNoShm_T_Ref reg args w0 h0 = Inr (u, h)"
  shows "\<exists>p a. RefNoShm_obj (obj u) = Some p \<and> RefNoShm_alloc (obj u) = Some a \<and> p \<noteq> nullptr \<and>
           objs h = (objs h0)(p \<mapsto> constructed args) \<and> frees h = frees h0 \<and>
           owner u = (if unique fl then Some True else owner w0)"
proof -
  from assms obtain r where r: "RefNoShm_shm_init reg args (obj w0) h0 = Inr (r, h)"
    and u: "u = (if unique fl then w0\<lparr>obj := r, owner := Some True\<rparr> else w0\<lparr>obj := r\<rparr>)"
    by (auto simp: shm_init_def RefNoShm_T_Ref_def split: sum.splits)
  from RefNoShm_shm_init_state [OF r] u show ?thesis by auto
qed

lemma shm_destroy_NoShm_live:
  assumes "destructable fl" "RefNoShm_obj (obj w) = Some p" "p \<noteq> nullptr"
    "RefNoShm_alloc (obj w) = Some a" "objs h p = Some v"
  shows "shm_destroy fl RefNoShm_T_Ref w h =
     Inr (w, h\<lparr>objs := (objs h)(p := None),
               frees := (frees h)(GetId a := Suc (frees h (GetId a)))\<rparr>)"
  using assms
  by (simp add: shm_destroy_def RefNoShm_T_Ref_def RefNoShm_shm_destroy_def FreePtr_live)

lemma shm_destroy_NoShm_dead:
  assumes "destructable fl" "RefNoShm_obj (obj w) = Some p" "p \<noteq> nullptr"
    "RefNoShm_alloc (obj w) = Some a" "objs h p = None"
  shows "shm_destroy fl RefNoShm_T_Ref w h = Inl InvalidFree"
  using assms
  by (simp add: shm_destroy_def RefNoShm_T_Ref_def RefNoShm_shm_destroy_def FreePtr_dead)

lemma shm_destroy_owner:
  "shm_destroy fl B w h = Inr (w', h') \<Longrightarrow> owner w' = owner w"
  by (auto simp: shm_destroy_def split: sum.splits)

section \<open>Facts about the wrapper\<close>

lemma dtor_owner:
  "unique fl \<Longrightarrow> owner w = Some True \<Longrightarrow>
   dtor fl B w h = map_sum id snd (shm_destroy fl B w h)"
  by (auto simp: dtor_def split: sum.splits)

lemma dtor_not_owner: "owner w = Some False \<Longrightarrow> dtor fl B w h = Inr h"
  by (simp add: dtor_def)

lemma dtor_not_unique: "\<not> unique fl \<Longrightarrow> dtor fl B w h = Inr h"
  by (simp add: dtor_def)

lemma owner_shm_deserialize:
  "unique fl \<Longrightarrow> owner (shm_deserialize fl B ar w) = Some False"
  by (simp add: shm_deserialize_def Let_def)

lemma owner_shm_deserialize_obj:
  "unique fl \<Longrightarrow> shm_deserialize_obj fl B p h w = Inr w' \<Longrightarrow> owner w' = Some False"
  by (auto simp: shm_deserialize_obj_def split: sum.splits)

text \<open>
  The three operations that go through the wrapper's \<^verbatim>\<open>shm_strong_copy\<close> (copy
  assignment, move constructor, move assignment) copy the flag of an exclusive wrapper
  from the source and take the backend's copy of the source's state.
\<close>

lemma shm_strong_copy_owner:
  "unique fl \<Longrightarrow> shm_strong_copy fl B w other = Inr w' \<Longrightarrow> owner w' = owner other"
  by (auto simp: shm_strong_copy_def split: sum.splits)

lemma shm_strong_copy_NoShm_alias:
  "shm_strong_copy fl RefNoShm_T_Ref w other = Inr w' \<Longrightarrow>
   RefNoShm_obj (obj w') = RefNoShm_obj (obj other) \<and>
   RefNoShm_alloc (obj w') = RefNoShm_alloc (obj other)"
  by (auto simp: shm_strong_copy_def RefNoShm_T_Ref_def RefNoShm_shm_strong_copy_def
      split: if_splits)

lemma copy_assign_owner:
  assumes "unique fl" "this \<noteq> other" "ws other = Some ow"
    "copy_assign fl B this other ws = Inr ws'"
  shows "\<exists>w'. ws' this = Some w' \<and> owner w' = owner ow \<and> ws' other = Some ow"
  using assms
  by (auto simp: copy_assign_def shm_strong_copy_def split: option.splits sum.splits)

lemma move_assign_owner:
  assumes "unique fl" "this \<noteq> other" "ws other = Some ow"
    "move_assign fl B this other ws = Inr ws'"
  shows "\<exists>w'. ws' this = Some w' \<and> owner w' = owner ow \<and> ws' other = Some ow"
  using assms
  by (auto simp: move_assign_def shm_strong_copy_def split: option.splits sum.splits)

lemma move_ctor_owner:
  "unique fl \<Longrightarrow> move_ctor fl B other = Inr w' \<Longrightarrow> owner w' = owner other"
  by (simp add: move_ctor_def shm_strong_copy_owner)

lemma example_init:
  "shm_init uptr RefNoShm_T_Ref example_reg (Args 5)
      (smart_ptr_base_default uptr (RefNoShm_T_Ref :: int_backend)) empty_memory
   = Inr (example_owner, example_memory)"
  by (simp add: shm_init_def smart_ptr_base_default_def RefNoShm_T_Ref_def uptr_def
      RefNoShm_shm_init_default_def RefNoShm_shm_init_alloc_def AllocateConstructObjs_def
      example_reg_def example_alloc_def empty_memory_def example_owner_def example_memory_def
      RefNoShm_uninit_def nullptr_def)

section \<open>Hashing\<close>

text \<open>
  C1: the hash of a wrapper (mptr, uptr) equals \<^verbatim>\<open>std::hash<T>\<close> of the element it
  points to. The code does not compute this: \<^verbatim>\<open>hash()\<close> hands the wrapper itself to
  \<^verbatim>\<open>std::hash<T>\<close>, never the element. For an element type with no conversion from the
  wrapper (here \<^verbatim>\<open>int\<close>, the element being 5) there is no hash at all; for one that has
  a conversion the hash is that of the converted wrapper, whatever the element is.
\<close>

theorem hash_applies_hash_T_to_wrapper:
  "hash hash_T None w = Inl IllFormed
   \<and> hash hash_T (Some to_T) w = Inr (hash_T (to_T w))
   \<and> deref uptr RefNoShm_T_Ref example_owner example_memory = Inr 5
   \<and> std_hash_uptr nat None example_owner = Inl IllFormed
   \<and> std_hash_mptr nat None example_owner = Inl IllFormed
   \<and> std_hash_uptr nat (Some (\<lambda>w. 0)) example_owner = Inr 0"
  by (simp add: hash_def std_hash_uptr_def std_hash_mptr_def deref_def RefNoShm_T_Ref_def
      RefNoShm_deref_def RefNoShm_get_def example_owner_def example_memory_def)

section \<open>Copy and move\<close>

text \<open>
  C2: every copy and move operation of an exclusive wrapper copies the ownership flag
  from the source. The copy constructor does not: it runs the backend's copy only, so
  the flag of the new wrapper is never written, while the move constructor on the same
  source copies it.
\<close>

theorem copy_ctor_leaves_owner_unwritten:
  "owner example_owner = Some True
   \<and> copy_ctor uptr (RefNoShm_T_Ref :: int_backend) example_owner
       = Inr (example_owner\<lparr>owner := None\<rparr>)
   \<and> move_ctor uptr (RefNoShm_T_Ref :: int_backend) example_owner = Inr example_owner"
  by (simp add: copy_ctor_def move_ctor_def shm_strong_copy_def smart_ptr_base_default_def
      RefNoShm_T_Ref_def RefNoShm_shm_strong_copy_def RefNoShm_uninit_def uptr_def
      example_owner_def)

text \<open>
  C8: assigning a wrapper to itself, by the copy or the move assignment operator,
  changes no wrapper: the store of wrappers is returned as it was.
\<close>

theorem self_assign_identity:
  "copy_assign fl B a a ws = Inr ws \<and> move_assign fl B a a ws = Inr ws"
  by (simp add: copy_assign_def move_assign_def)

theorem self_assign_identity_witness:
  "copy_assign uptr (RefNoShm_T_Ref :: int_backend) 7 7 [7 \<mapsto> example_owner]
     = Inr [7 \<mapsto> example_owner]
   \<and> move_assign uptr (RefNoShm_T_Ref :: int_backend) 7 7 [7 \<mapsto> example_owner]
     = Inr [7 \<mapsto> example_owner]"
  using self_assign_identity [of uptr "RefNoShm_T_Ref :: int_backend" 7 "[7 \<mapsto> example_owner]"]
  by simp

section \<open>Deserialization\<close>

text \<open>
  C3: for an exclusive wrapper, each deserializing member function and each
  deserializing constructor (from a TypedPointer, a TypedAtomicPointer, a ShmArchive
  with an allocator, a ShmDeserialize, or a reference to a live object) leaves the
  ownership flag false, and the destructor of such a wrapper leaves the memory as it
  is.
\<close>

theorem deserialized_wrapper_never_owns:
  assumes "unique fl"
  shows "owner (shm_deserialize fl B ar w) = Some False
    \<and> dtor fl B (shm_deserialize fl B ar w) h = Inr h
    \<and> owner (shm_deserialize_TypedPointer fl B reg tp w) = Some False
    \<and> dtor fl B (shm_deserialize_TypedPointer fl B reg tp w) h = Inr h
    \<and> owner (shm_deserialize_TypedAtomicPointer fl B reg tp w) = Some False
    \<and> dtor fl B (shm_deserialize_TypedAtomicPointer fl B reg tp w) h = Inr h
    \<and> (shm_deserialize_obj fl B p h0 w = Inr w1 \<longrightarrow>
          owner w1 = Some False \<and> dtor fl B w1 h = Inr h)
    \<and> owner (ctor_TypedPointer fl B reg tp) = Some False
    \<and> dtor fl B (ctor_TypedPointer fl B reg tp) h = Inr h
    \<and> owner (ctor_TypedAtomicPointer fl B reg tp) = Some False
    \<and> dtor fl B (ctor_TypedAtomicPointer fl B reg tp) h = Inr h
    \<and> owner (ctor_ShmArchive fl B arch a) = Some False
    \<and> dtor fl B (ctor_ShmArchive fl B arch a) h = Inr h
    \<and> owner (ctor_ShmDeserialize fl B ar) = Some False
    \<and> dtor fl B (ctor_ShmDeserialize fl B ar) h = Inr h
    \<and> (ctor_obj fl B p h0 = Inr w2 \<longrightarrow> owner w2 = Some False \<and> dtor fl B w2 h = Inr h)"
proof -
  have des: "owner (shm_deserialize fl B x v) = Some False
      \<and> dtor fl B (shm_deserialize fl B x v) h = Inr h" for x v
    using assms by (simp add: owner_shm_deserialize dtor_not_owner)
  have des_obj: "owner w' = Some False \<and> dtor fl B w' h = Inr h"
    if "shm_deserialize_obj fl B p h0 v = Inr w'" for v w'
    using assms that by (simp add: owner_shm_deserialize_obj [OF assms that] dtor_not_owner)
  show ?thesis
    using des des_obj
    by (simp add: shm_deserialize_TypedPointer_def shm_deserialize_TypedAtomicPointer_def
        ctor_TypedPointer_def ctor_TypedAtomicPointer_def ctor_ShmArchive_def
        ctor_ShmDeserialize_def ctor_obj_def Let_def)
qed

theorem deserialized_wrapper_never_owns_witness:
  "unique uptr
   \<and> shm_deserialize uptr (RefNoShm_T_Ref :: int_backend)
        \<lparr>ar_header = 4104, ar_alloc = example_alloc\<rparr> example_owner
       = example_owner\<lparr>owner := Some False\<rparr>
   \<and> owner (ctor_TypedPointer uptr (RefNoShm_T_Ref :: int_backend) example_reg
        \<lparr>allocator_id = 1, off = 8\<rparr>) = Some False
   \<and> owner (ctor_TypedAtomicPointer uptr (RefNoShm_T_Ref :: int_backend) example_reg
        \<lparr>allocator_id = 1, off = 8\<rparr>) = Some False
   \<and> dtor uptr RefNoShm_T_Ref
        (ctor_TypedPointer uptr (RefNoShm_T_Ref :: int_backend) example_reg
           \<lparr>allocator_id = 1, off = 8\<rparr>) example_memory = Inr example_memory
   \<and> shm_deserialize_obj uptr RefNoShm_T_Ref 4104 example_memory example_owner
       = Inr (example_owner\<lparr>owner := Some False\<rparr>)
   \<and> dtor uptr (RefNoShm_T_Ref :: int_backend) (example_owner\<lparr>owner := Some False\<rparr>)
        example_memory = Inr example_memory
   \<and> ctor_obj uptr RefNoShm_T_Ref 4104 example_memory
       = Inr \<lparr>obj = \<lparr>RefNoShm_obj = Some 4104, RefNoShm_alloc = None\<rparr>, owner = Some False\<rparr>
   \<and> dtor uptr RefNoShm_T_Ref
        \<lparr>obj = \<lparr>RefNoShm_obj = Some 4104, RefNoShm_alloc = None\<rparr>, owner = Some False\<rparr>
        example_memory = Inr example_memory"
  using deserialized_wrapper_never_owns [where fl = uptr and B = "RefNoShm_T_Ref :: int_backend"
      and ar = "\<lparr>ar_header = 4104, ar_alloc = example_alloc\<rparr>" and w = example_owner
      and h = example_memory and reg = example_reg and tp = "\<lparr>allocator_id = 1, off = 8\<rparr>"
      and p = 4104 and ?h0.0 = example_memory
      and ?w1.0 = "example_owner\<lparr>owner := Some False\<rparr>"
      and ?w2.0 = "\<lparr>obj = \<lparr>RefNoShm_obj = Some 4104, RefNoShm_alloc = None\<rparr>, owner = Some False\<rparr>"]
  by (simp add: uptr_def shm_deserialize_def RefNoShm_T_Ref_def RefNoShm_shm_deserialize_def
      example_owner_def ctor_obj_def shm_deserialize_obj_def smart_ptr_base_default_def
      RefNoShm_shm_deserialize_obj_def RefNoShm_uninit_def)

section \<open>Destruction\<close>

text \<open>
  C9: the default constructor writes no member. Under default-initialization the
  ownership flag is indeterminate, and the destructor of an exclusive wrapper in that
  state reads it: the result is not defined. Under value-initialization the members are
  zeroed first: the flag is false and the destructor leaves the memory as it is.
\<close>

theorem default_initialized_owner_indeterminate:
  "owner (smart_ptr_base_default fl B) = None
   \<and> (unique fl \<longrightarrow> dtor fl B (smart_ptr_base_default fl B) h = Inl IndeterminateRead)
   \<and> owner (smart_ptr_base_value_init z) = Some False
   \<and> dtor fl B (smart_ptr_base_value_init z) h = Inr h"
  by (simp add: smart_ptr_base_default_def smart_ptr_base_value_init_def dtor_def)

theorem default_initialized_owner_indeterminate_witness:
  "unique uptr \<and>
   owner (smart_ptr_base_default uptr (RefNoShm_T_Ref :: int_backend)) = None \<and>
   dtor uptr RefNoShm_T_Ref (smart_ptr_base_default uptr (RefNoShm_T_Ref :: int_backend))
     empty_memory = Inl IndeterminateRead \<and>
   dtor uptr (RefNoShm_T_Ref :: int_backend) (smart_ptr_base_value_init RefNoShm_zeroed)
     example_memory = Inr example_memory"
  using default_initialized_owner_indeterminate [of uptr "RefNoShm_T_Ref :: int_backend"
      empty_memory RefNoShm_zeroed]
    default_initialized_owner_indeterminate [of uptr "RefNoShm_T_Ref :: int_backend"
      example_memory RefNoShm_zeroed]
  by (simp add: uptr_def)

text \<open>
  The statement of C9 for every default-constructed wrapper fails: a value-initialized
  exclusive wrapper that was never initialized or deserialized has the flag false, and
  its destructor is defined and does nothing.
\<close>

theorem value_initialized_owner_false:
  "owner (smart_ptr_base_value_init RefNoShm_zeroed) \<noteq> None
   \<and> dtor uptr (RefNoShm_T_Ref :: int_backend) (smart_ptr_base_value_init RefNoShm_zeroed)
       empty_memory \<noteq> Inl IndeterminateRead
   \<and> dtor uptr (RefNoShm_T_Ref :: int_backend) (smart_ptr_base_value_init RefNoShm_zeroed)
       empty_memory = Inr empty_memory"
  by (simp add: smart_ptr_base_value_init_def dtor_def uptr_def)

text \<open>
  C5: \<^verbatim>\<open>_RefNoShm::shm_destroy\<close> calls the allocator's \<^verbatim>\<open>FreePtr\<close> on the stored
  pointer when the backend is destructible and the pointer is not null, which frees a
  live object and counts one free; when the backend is not destructible or the pointer
  is null it returns the backend and the memory unchanged. Whenever it returns, the
  backend's pointer and allocator are as before.
\<close>

theorem RefNoShm_shm_destroy_frees_iff:
  "(d \<and> RefNoShm_obj r = Some p \<and> p \<noteq> nullptr \<and> RefNoShm_alloc r = Some a \<longrightarrow>
      RefNoShm_shm_destroy d r h = map_sum id (Pair r) (FreePtr a p h))
   \<and> (d \<and> RefNoShm_obj r = Some p \<and> p \<noteq> nullptr \<and> RefNoShm_alloc r = Some a \<and>
        objs h p = Some v \<longrightarrow>
      RefNoShm_shm_destroy d r h =
        Inr (r, h\<lparr>objs := (objs h)(p := None),
                  frees := (frees h)(GetId a := Suc (frees h (GetId a)))\<rparr>))
   \<and> (\<not> d \<or> RefNoShm_obj r = Some nullptr \<longrightarrow>
      RefNoShm_shm_destroy d r h = Inr (r, h))
   \<and> (RefNoShm_shm_destroy d r h = Inr (r', h') \<longrightarrow> r' = r)"
  by (auto simp: RefNoShm_shm_destroy_def FreePtr_live split: sum.splits option.splits if_splits)

theorem RefNoShm_shm_destroy_frees_iff_witness:
  "RefNoShm_shm_destroy True (obj example_owner) example_memory
     = Inr (obj example_owner, freed_memory)
   \<and> RefNoShm_shm_destroy False (obj example_owner) example_memory
     = Inr (obj example_owner, example_memory)
   \<and> RefNoShm_shm_destroy True \<lparr>RefNoShm_obj = Some nullptr, RefNoShm_alloc = None\<rparr>
       example_memory
     = Inr (\<lparr>RefNoShm_obj = Some nullptr, RefNoShm_alloc = None\<rparr>, example_memory)"
  using
    RefNoShm_shm_destroy_frees_iff [where d = True and r = "obj example_owner" and p = 4104
      and a = example_alloc and h = example_memory and v = 5]
    RefNoShm_shm_destroy_frees_iff [where d = False and r = "obj example_owner"
      and h = example_memory]
    RefNoShm_shm_destroy_frees_iff [where d = True
      and r = "\<lparr>RefNoShm_obj = Some nullptr, RefNoShm_alloc = None\<rparr>" and h = example_memory]
  by (simp add: example_owner_def example_memory_def freed_memory_def example_alloc_def
      nullptr_def FreePtr_def)

text \<open>
  C4: the destructor runs \<^verbatim>\<open>shm_destroy\<close> exactly when the wrapper is exclusive and
  its ownership flag is true; the destructor of a wrapper that is not exclusive, or of
  an exclusive one whose flag is false, leaves the memory as it is. An exclusive,
  destructible wrapper over \<^verbatim>\<open>_RefNoShm\<close> that \<^verbatim>\<open>shm_init\<close> has initialized holds a
  live object, and its destructor frees exactly this object: the allocator counts one
  free more and the object is gone. Over \<^verbatim>\<open>_RefShm\<close> the initialized wrapper holds
  the object that the element type's constructor built, and its destructor destroys
  exactly this object once: it is one run of the element type's own \<^verbatim>\<open>shm_destroy\<close>
  on the object with its header marked as owned.
\<close>

theorem dtor_destroys_iff_unique_owner:
  "(\<not> unique fl \<longrightarrow> dtor fl B w h = Inr h)
   \<and> (unique fl \<and> owner w = Some False \<longrightarrow> dtor fl B w h = Inr h)
   \<and> (unique fl \<and> owner w = Some True \<longrightarrow>
        dtor fl B w h = map_sum id snd (shm_destroy fl B w h))
   \<and> (shm_init uptr RefNoShm_T_Ref reg args w0 h0 = Inr (u, h1) \<longrightarrow>
        (\<exists>p a. RefNoShm_obj (obj u) = Some p \<and> RefNoShm_alloc (obj u) = Some a \<and>
           objs h1 p = Some (constructed args) \<and>
           dtor uptr RefNoShm_T_Ref u h1 =
             Inr \<lparr>objs = (objs h0)(p := None),
                  frees = (frees h0)(GetId a := Suc (frees h0 (GetId a)))\<rparr>))
   \<and> (shm_init uptr (RefShm_T_Ref T) reg args' v0 g0 = Inr (v, g1) \<longrightarrow>
        (\<exists>x. T_construct T args' g0 = Inr (x, g1) \<and> RefShm_obj (obj v) = Some x \<and>
           owner v = Some True \<and>
           dtor uptr (RefShm_T_Ref T) v g1 =
             map_sum id snd (T_shm_destroy T (SetHeaderOwned T x) g1)))"
proof -
  have init: "\<exists>p a. RefNoShm_obj (obj u) = Some p \<and> RefNoShm_alloc (obj u) = Some a \<and>
           objs h1 p = Some (constructed args) \<and>
           dtor uptr RefNoShm_T_Ref u h1 =
             Inr \<lparr>objs = (objs h0)(p := None),
                  frees = (frees h0)(GetId a := Suc (frees h0 (GetId a)))\<rparr>"
    if "shm_init uptr RefNoShm_T_Ref reg args w0 h0 = Inr (u, h1)"
  proof -
    from shm_init_NoShm_state [OF that] obtain p a where
      st: "RefNoShm_obj (obj u) = Some p" "RefNoShm_alloc (obj u) = Some a" "p \<noteq> nullptr"
        "objs h1 = (objs h0)(p \<mapsto> constructed args)" "frees h1 = frees h0"
        "owner u = Some True"
      by (auto simp: uptr_def)
    have live: "objs h1 p = Some (constructed args)" using st(4) by simp
    have "dtor uptr RefNoShm_T_Ref u h1 = map_sum id snd (shm_destroy uptr RefNoShm_T_Ref u h1)"
      using st(6) by (simp add: dtor_owner uptr_def)
    also have "shm_destroy uptr RefNoShm_T_Ref u h1 =
       Inr (u, h1\<lparr>objs := (objs h1)(p := None),
               frees := (frees h1)(GetId a := Suc (frees h1 (GetId a)))\<rparr>)"
      using st(1,2,3) live by (intro shm_destroy_NoShm_live) (simp_all add: uptr_def)
    finally show ?thesis using st live by auto
  qed
  have embedded: "\<exists>x. T_construct T args' g0 = Inr (x, g1) \<and> RefShm_obj (obj v) = Some x \<and>
           owner v = Some True \<and>
           dtor uptr (RefShm_T_Ref T) v g1 =
             map_sum id snd (T_shm_destroy T (SetHeaderOwned T x) g1)"
    if "shm_init uptr (RefShm_T_Ref T) reg args' v0 g0 = Inr (v, g1)"
  proof -
    from that obtain x where
      x: "T_construct T args' g0 = Inr (x, g1)" "RefShm_obj (obj v) = Some x"
        "owner v = Some True"
      by (auto simp: shm_init_def RefShm_T_Ref_def RefShm_shm_init_def uptr_def
          split: sum.splits)
    have "dtor uptr (RefShm_T_Ref T) v g1 =
        map_sum id snd (shm_destroy uptr (RefShm_T_Ref T) v g1)"
      using x(3) by (simp add: dtor_owner uptr_def)
    also have "\<dots> = map_sum id snd (T_shm_destroy T (SetHeaderOwned T x) g1)"
      using x(2)
      by (auto simp: shm_destroy_def RefShm_T_Ref_def RefShm_shm_destroy_def RefShm_get_def
          uptr_def split: sum.splits)
    finally show ?thesis using x by blast
  qed
  show ?thesis
    using init embedded by (simp add: dtor_not_unique dtor_not_owner dtor_owner)
qed

theorem dtor_destroys_iff_unique_owner_witness:
  "\<not> unique mptr \<and> unique uptr
   \<and> dtor mptr (RefNoShm_T_Ref :: int_backend) example_owner example_memory
       = Inr example_memory
   \<and> dtor uptr (RefNoShm_T_Ref :: int_backend) (example_owner\<lparr>owner := Some False\<rparr>)
       example_memory = Inr example_memory
   \<and> shm_init uptr RefNoShm_T_Ref example_reg (Args 5)
        (smart_ptr_base_default uptr (RefNoShm_T_Ref :: int_backend)) empty_memory
       = Inr (example_owner, example_memory)
   \<and> shm_destroy uptr (RefNoShm_T_Ref :: int_backend) example_owner example_memory
       = Inr (example_owner, freed_memory)
   \<and> dtor uptr (RefNoShm_T_Ref :: int_backend) example_owner example_memory
       = Inr freed_memory
   \<and> shm_init uptr (RefShm_T_Ref boxed_T) example_reg
        (Args \<lparr>box_header = 0, box_owned = False\<rparr>)
        (smart_ptr_base_default uptr (RefShm_T_Ref boxed_T))
        \<lparr>objs = Map.empty, frees = (\<lambda>i. 0)\<rparr>
       = Inr (boxed_owner, boxed_memory)
   \<and> dtor uptr (RefShm_T_Ref boxed_T) boxed_owner boxed_memory
       = Inr \<lparr>objs = Map.empty, frees = (\<lambda>i. 0)(1 := 1)\<rparr>"
  using
    dtor_destroys_iff_unique_owner [where fl = mptr and B = "RefNoShm_T_Ref :: int_backend"
      and w = example_owner and h = example_memory and reg = example_reg and args = "Args 5"
      and ?w0.0 = "smart_ptr_base_default uptr (RefNoShm_T_Ref :: int_backend)"
      and ?h0.0 = empty_memory and u = example_owner and ?h1.0 = example_memory
      and T = boxed_T and args' = "Args \<lparr>box_header = 0, box_owned = False\<rparr>"
      and ?v0.0 = "smart_ptr_base_default uptr (RefShm_T_Ref boxed_T)"
      and ?g0.0 = "\<lparr>objs = Map.empty, frees = (\<lambda>i. 0)\<rparr>" and v = boxed_owner
      and ?g1.0 = boxed_memory]
    dtor_destroys_iff_unique_owner [where fl = uptr and B = "RefNoShm_T_Ref :: int_backend"
      and w = "example_owner\<lparr>owner := Some False\<rparr>" and h = example_memory
      and reg = example_reg and args = "Args 5"
      and ?w0.0 = "smart_ptr_base_default uptr (RefNoShm_T_Ref :: int_backend)"
      and ?h0.0 = empty_memory and u = example_owner and ?h1.0 = example_memory
      and T = boxed_T and args' = "Args \<lparr>box_header = 0, box_owned = False\<rparr>"
      and ?v0.0 = "smart_ptr_base_default uptr (RefShm_T_Ref boxed_T)"
      and ?g0.0 = "\<lparr>objs = Map.empty, frees = (\<lambda>i. 0)\<rparr>" and v = boxed_owner
      and ?g1.0 = boxed_memory]
    dtor_destroys_iff_unique_owner [where fl = uptr and B = "RefNoShm_T_Ref :: int_backend"
      and w = example_owner and h = example_memory and reg = example_reg and args = "Args 5"
      and ?w0.0 = "smart_ptr_base_default uptr (RefNoShm_T_Ref :: int_backend)"
      and ?h0.0 = empty_memory and u = example_owner and ?h1.0 = example_memory
      and T = boxed_T and args' = "Args \<lparr>box_header = 0, box_owned = False\<rparr>"
      and ?v0.0 = "smart_ptr_base_default uptr (RefShm_T_Ref boxed_T)"
      and ?g0.0 = "\<lparr>objs = Map.empty, frees = (\<lambda>i. 0)\<rparr>" and v = boxed_owner
      and ?g1.0 = boxed_memory]
    example_init
  by (simp add: mptr_def uptr_def example_owner_def example_memory_def freed_memory_def
      example_alloc_def empty_memory_def shm_destroy_def dtor_def RefNoShm_T_Ref_def
      RefNoShm_shm_destroy_def FreePtr_def nullptr_def shm_init_def RefShm_T_Ref_def
      RefShm_shm_init_def RefShm_shm_destroy_def RefShm_get_def RefShm_uninit_def
      smart_ptr_base_default_def boxed_T_def boxed_owner_def boxed_memory_def
      AllocateConstructObjs_def)

text \<open>
  C10: the explicit \<^verbatim>\<open>shm_destroy\<close> of the wrapper changes neither the ownership flag
  nor, over \<^verbatim>\<open>_RefNoShm\<close>, the stored pointer. For an exclusive, destructible
  wrapper whose flag is true the destructor therefore runs the backend's destroy once
  more; over \<^verbatim>\<open>_RefNoShm\<close>, after \<^verbatim>\<open>shm_init\<close> and an explicit \<^verbatim>\<open>shm_destroy\<close>, this
  second destroy frees an object that is no longer live.
\<close>

theorem explicit_destroy_then_dtor_frees_twice:
  assumes "unique fl" and "destructable fl"
  shows "(shm_destroy fl B w g = Inr (w', g') \<and> owner w = Some True \<longrightarrow>
           owner w' = Some True \<and>
           dtor fl B w' g' = map_sum id snd (shm_destroy fl B w' g'))
    \<and> (shm_init fl RefNoShm_T_Ref reg args w0 h0 = Inr (u, h) \<longrightarrow>
         owner u = Some True \<and>
         (\<exists>p h1. RefNoShm_obj (obj u) = Some p \<and> p \<noteq> nullptr \<and> objs h p \<noteq> None \<and>
            shm_destroy fl RefNoShm_T_Ref u h = Inr (u, h1) \<and> objs h1 p = None \<and>
            dtor fl RefNoShm_T_Ref u h1 = Inl InvalidFree))"
proof -
  have general: "owner w' = Some True \<and> dtor fl B w' g' = map_sum id snd (shm_destroy fl B w' g')"
    if "shm_destroy fl B w g = Inr (w', g')" and "owner w = Some True"
  proof -
    from that have "owner w' = Some True" by (simp add: shm_destroy_owner)
    with assms(1) show ?thesis by (simp add: dtor_owner)
  qed
  have external: "owner u = Some True \<and>
         (\<exists>p h1. RefNoShm_obj (obj u) = Some p \<and> p \<noteq> nullptr \<and> objs h p \<noteq> None \<and>
            shm_destroy fl RefNoShm_T_Ref u h = Inr (u, h1) \<and> objs h1 p = None \<and>
            dtor fl RefNoShm_T_Ref u h1 = Inl InvalidFree)"
    if init: "shm_init fl RefNoShm_T_Ref reg args w0 h0 = Inr (u, h)"
  proof -
    from shm_init_NoShm_state [OF init] assms(1) obtain p a where
      st: "RefNoShm_obj (obj u) = Some p" "RefNoShm_alloc (obj u) = Some a" "p \<noteq> nullptr"
        "objs h = (objs h0)(p \<mapsto> constructed args)" "owner u = Some True"
      by auto
    define h1 where "h1 = h\<lparr>objs := (objs h)(p := None),
                 frees := (frees h)(GetId a := Suc (frees h (GetId a)))\<rparr>"
    have live: "objs h p = Some (constructed args)" using st(4) by simp
    have d1: "shm_destroy fl RefNoShm_T_Ref u h = Inr (u, h1)"
      unfolding h1_def using assms(2) st(1) st(3) st(2) live by (rule shm_destroy_NoShm_live)
    have dead: "objs h1 p = None" by (simp add: h1_def)
    have d2: "shm_destroy fl RefNoShm_T_Ref u h1 = Inl InvalidFree"
      using assms(2) st(1) st(3) st(2) dead by (rule shm_destroy_NoShm_dead)
    have d3: "dtor fl RefNoShm_T_Ref u h1 = map_sum id snd (shm_destroy fl RefNoShm_T_Ref u h1)"
      using assms(1) st(5) by (rule dtor_owner)
    show ?thesis using st live d1 dead d2 d3 by auto
  qed
  show ?thesis using general external by blast
qed

theorem explicit_destroy_then_dtor_frees_twice_witness:
  "unique uptr \<and> destructable uptr
   \<and> shm_init uptr RefNoShm_T_Ref example_reg (Args 5)
        (smart_ptr_base_default uptr (RefNoShm_T_Ref :: int_backend)) empty_memory
       = Inr (example_owner, example_memory)
   \<and> owner example_owner = Some True
   \<and> shm_destroy uptr (RefNoShm_T_Ref :: int_backend) example_owner example_memory
       = Inr (example_owner, freed_memory)
   \<and> dtor uptr (RefNoShm_T_Ref :: int_backend) example_owner freed_memory = Inl InvalidFree"
  using
    explicit_destroy_then_dtor_frees_twice [where fl = uptr and B = "RefNoShm_T_Ref :: int_backend"
      and w = example_owner and g = example_memory and w' = example_owner and g' = freed_memory
      and reg = example_reg and args = "Args 5"
      and ?w0.0 = "smart_ptr_base_default uptr (RefNoShm_T_Ref :: int_backend)"
      and ?h0.0 = empty_memory and u = example_owner and h = example_memory]
    example_init
  by (simp add: uptr_def example_owner_def example_memory_def freed_memory_def
      example_alloc_def shm_destroy_def dtor_def RefNoShm_T_Ref_def
      RefNoShm_shm_destroy_def FreePtr_def nullptr_def)

section \<open>Aliasing references\<close>

text \<open>
  C6: a \<^verbatim>\<open>Ref\<close> (not exclusive, not destructible) built from a live object.
  Over \<^verbatim>\<open>_RefNoShm\<close> the construction succeeds, the wrapper dereferences to whatever
  value the object has in the memory at hand, and \<^verbatim>\<open>shm_destroy\<close> returns the wrapper
  and the memory unchanged. Over \<^verbatim>\<open>_RefShm\<close> the wrapper holds an object of its own,
  the element type's deserialization of the live object's \<^verbatim>\<open>GetShmDeserialize()\<close>; it
  dereferences to that object, and \<^verbatim>\<open>shm_destroy\<close> applies \<^verbatim>\<open>UnsetHeaderOwned\<close> and
  then the element type's own \<^verbatim>\<open>shm_destroy\<close> to it.
\<close>

theorem Ref_from_object_deref_destroy:
  "(\<exists>w. ctor_obj Ref RefNoShm_T_Ref p h0 = Inr w)
   \<and> (ctor_obj Ref RefNoShm_T_Ref p h0 = Inr w \<longrightarrow>
         (objs h p = Some v \<longrightarrow> deref Ref RefNoShm_T_Ref w h = Inr v)
         \<and> shm_destroy Ref RefNoShm_T_Ref w h = Inr (w, h))
   \<and> (objs g0 q = Some x \<longrightarrow>
        (\<exists>w. ctor_obj Ref (RefShm_T_Ref T) q g0 = Inr w
           \<and> deref Ref (RefShm_T_Ref T) w g =
                Inr (T_shm_deserialize T None (GetShmDeserialize T x))
           \<and> shm_destroy Ref (RefShm_T_Ref T) w g =
                (case T_shm_destroy T
                        (UnsetHeaderOwned T (T_shm_deserialize T None (GetShmDeserialize T x))) g of
                   Inl e \<Rightarrow> Inl e
                 | Inr (y, g') \<Rightarrow> Inr (w\<lparr>obj := \<lparr>RefShm_obj = Some y\<rparr>\<rparr>, g'))))"
  by (auto simp: ctor_obj_def shm_deserialize_obj_def smart_ptr_base_default_def RefShm_T_Ref_def
      RefNoShm_T_Ref_def Ref_def RefShm_shm_deserialize_obj_def RefNoShm_shm_deserialize_obj_def
      RefShm_uninit_def RefNoShm_uninit_def RefShm_get_def RefNoShm_get_def deref_def
      RefShm_deref_def RefNoShm_deref_def shm_destroy_def RefShm_shm_destroy_def
      RefNoShm_shm_destroy_def split: sum.splits)

theorem Ref_from_object_deref_destroy_witness:
  "ctor_obj Ref RefNoShm_T_Ref 4104 example_memory
     = Inr \<lparr>obj = \<lparr>RefNoShm_obj = Some 4104, RefNoShm_alloc = None\<rparr>, owner = None\<rparr>
   \<and> objs example_memory 4104 = Some 5
   \<and> deref Ref RefNoShm_T_Ref
        \<lparr>obj = \<lparr>RefNoShm_obj = Some 4104, RefNoShm_alloc = None\<rparr>, owner = None\<rparr>
        example_memory = Inr 5
   \<and> shm_destroy Ref RefNoShm_T_Ref
        \<lparr>obj = \<lparr>RefNoShm_obj = Some 4104, RefNoShm_alloc = None\<rparr>, owner = None\<rparr>
        example_memory
       = Inr (\<lparr>obj = \<lparr>RefNoShm_obj = Some 4104, RefNoShm_alloc = None\<rparr>, owner = None\<rparr>,
              example_memory)
   \<and> objs toy_memory 4104 = Some \<lparr>toy_header_owned = True, toy_data_valid = True\<rparr>
   \<and> ctor_obj Ref (RefShm_T_Ref toy_T) 4104 toy_memory = Inr toy_ref
   \<and> deref Ref (RefShm_T_Ref toy_T) toy_ref toy_memory
       = Inr \<lparr>toy_header_owned = False, toy_data_valid = True\<rparr>
   \<and> shm_destroy Ref (RefShm_T_Ref toy_T) toy_ref toy_memory
       = Inr (toy_ref\<lparr>obj := \<lparr>RefShm_obj =
                Some \<lparr>toy_header_owned = False, toy_data_valid = False\<rparr>\<rparr>\<rparr>, toy_memory)"
  using Ref_from_object_deref_destroy [where p = 4104 and ?h0.0 = example_memory
      and w = "\<lparr>obj = \<lparr>RefNoShm_obj = Some 4104, RefNoShm_alloc = None\<rparr>, owner = None\<rparr>"
      and h = example_memory and v = 5 and ?g0.0 = toy_memory and q = 4104
      and x = "\<lparr>toy_header_owned = True, toy_data_valid = True\<rparr>" and T = toy_T
      and g = toy_memory]
  by (simp add: ctor_obj_def shm_deserialize_obj_def smart_ptr_base_default_def RefShm_T_Ref_def
      RefNoShm_T_Ref_def Ref_def RefShm_shm_deserialize_obj_def RefNoShm_shm_deserialize_obj_def
      RefShm_uninit_def RefNoShm_uninit_def RefShm_get_def toy_T_def toy_memory_def toy_ref_def
      example_memory_def)

text \<open>
  The statement of C6 with both backends alike fails over \<^verbatim>\<open>_RefShm\<close>: for the
  element type \<open>toy_T\<close>, a \<^verbatim>\<open>Ref\<close> built from the live object at 4104 does not
  dereference to that object's value, and \<^verbatim>\<open>shm_destroy\<close> on it does not return the
  wrapper unchanged.
\<close>

theorem Ref_destroy_RefShm_not_noop:
  "ctor_obj Ref (RefShm_T_Ref toy_T) 4104 toy_memory = Inr toy_ref
   \<and> objs toy_memory 4104 = Some \<lparr>toy_header_owned = True, toy_data_valid = True\<rparr>
   \<and> deref Ref (RefShm_T_Ref toy_T) toy_ref toy_memory
       \<noteq> Inr \<lparr>toy_header_owned = True, toy_data_valid = True\<rparr>
   \<and> shm_destroy Ref (RefShm_T_Ref toy_T) toy_ref toy_memory \<noteq> Inr (toy_ref, toy_memory)"
  by (simp add: ctor_obj_def shm_deserialize_obj_def smart_ptr_base_default_def RefShm_T_Ref_def
      Ref_def RefShm_shm_deserialize_obj_def RefShm_uninit_def RefShm_get_def toy_T_def
      toy_memory_def toy_ref_def deref_def RefShm_deref_def shm_destroy_def
      RefShm_shm_destroy_def)

section \<open>Serialization round trip\<close>

text \<open>
  C7: let \<open>u\<close> be an exclusive owner over \<^verbatim>\<open>_RefNoShm\<close> that \<^verbatim>\<open>shm_init\<close> has
  initialized, holding the pointer \<open>p\<close> of the allocator \<open>a\<close>, where the registry finds
  \<open>a\<close> under its id and \<open>a\<close> converts the offset of \<open>p\<close> back into \<open>p\<close>. Serializing
  \<open>u\<close>, into a TypedPointer or a TypedAtomicPointer, writes the allocator's id and its
  conversion of \<open>p\<close> into the locator; the manual pointer \<open>m\<close> constructed from this
  locator holds \<open>p\<close> and \<open>a\<close> and dereferences to the same value as \<open>u\<close>. The
  destructor of \<open>m\<close> frees nothing, before or after that of \<open>u\<close>, which frees the object
  once. The two wrappers are not independent under the explicit \<^verbatim>\<open>shm_destroy\<close>:
  on \<open>m\<close> it frees the object that \<open>u\<close> owns, the destructor of \<open>u\<close> then frees it a
  second time, and after the destructor of \<open>u\<close> it is \<^verbatim>\<open>shm_destroy\<close> on \<open>m\<close> that
  frees it a second time.
\<close>

theorem serialize_deserialize_roundtrip:
  fixes h :: "'a memory"
  assumes init: "shm_init uptr RefNoShm_T_Ref reg args w0 h0 = Inr (u, h)"
    and p: "RefNoShm_obj (obj u) = Some p" and a: "RefNoShm_alloc (obj u) = Some a"
    and reg: "GetAllocator reg (GetId a) = a" and conv: "Convert_off a (Convert a p) = p"
  shows "\<exists>tp m hF.
      shm_serialize_TypedPointer uptr RefNoShm_T_Ref u ar = Inr tp
      \<and> shm_serialize_TypedAtomicPointer uptr RefNoShm_T_Ref u ar = Inr tp
      \<and> tp = ar\<lparr>allocator_id := GetId a, off := Convert a p\<rparr>
      \<and> m = ctor_TypedPointer mptr (RefNoShm_T_Ref :: bool \<Rightarrow> (RefNoShm, 'a) T_Ref) reg tp
      \<and> m = ctor_TypedAtomicPointer mptr (RefNoShm_T_Ref :: bool \<Rightarrow> (RefNoShm, 'a) T_Ref) reg tp
      \<and> RefNoShm_obj (obj m) = Some p \<and> RefNoShm_alloc (obj m) = Some a
      \<and> deref uptr RefNoShm_T_Ref u h = Inr (constructed args)
      \<and> deref mptr RefNoShm_T_Ref m h = Inr (constructed args)
      \<and> hF = h\<lparr>objs := (objs h)(p := None),
                frees := (frees h)(GetId a := Suc (frees h (GetId a)))\<rparr>
      \<and> dtor mptr RefNoShm_T_Ref m h = Inr h
      \<and> dtor uptr RefNoShm_T_Ref u h = Inr hF
      \<and> dtor mptr RefNoShm_T_Ref m hF = Inr hF
      \<and> shm_destroy mptr RefNoShm_T_Ref m h = Inr (m, hF)
      \<and> dtor uptr RefNoShm_T_Ref u hF = Inl InvalidFree
      \<and> shm_destroy mptr RefNoShm_T_Ref m hF = Inl InvalidFree"
proof -
  from shm_init_NoShm_state [OF init] p a have
    st: "p \<noteq> nullptr" "objs h = (objs h0)(p \<mapsto> constructed args)" "owner u = Some True"
    by (auto simp: uptr_def)
  have live: "objs h p = Some (constructed args)" using st(2) by simp
  define tp where "tp = ar\<lparr>allocator_id := GetId a, off := Convert a p\<rparr>"
  define m where
    "m = ctor_TypedPointer mptr (RefNoShm_T_Ref :: bool \<Rightarrow> (RefNoShm, 'a) T_Ref) reg tp"
  define hF where "hF = h\<lparr>objs := (objs h)(p := None),
                frees := (frees h)(GetId a := Suc (frees h (GetId a)))\<rparr>"
  have ser: "shm_serialize_TypedPointer uptr RefNoShm_T_Ref u ar = Inr tp"
    using p a by (simp add: shm_serialize_TypedPointer_def RefNoShm_T_Ref_def
        RefNoShm_shm_serialize_def tp_def)
  have ser_atomic: "shm_serialize_TypedAtomicPointer uptr RefNoShm_T_Ref u ar = Inr tp"
    using p a by (simp add: shm_serialize_TypedAtomicPointer_def RefNoShm_T_Ref_def
        RefNoShm_shm_serialize_def tp_def)
  have m_atomic:
    "m = ctor_TypedAtomicPointer mptr (RefNoShm_T_Ref :: bool \<Rightarrow> (RefNoShm, 'a) T_Ref) reg tp"
    by (simp add: m_def ctor_TypedPointer_def ctor_TypedAtomicPointer_def
        shm_deserialize_TypedPointer_def shm_deserialize_TypedAtomicPointer_def)
  have m_obj: "RefNoShm_obj (obj m) = Some p" and m_alloc: "RefNoShm_alloc (obj m) = Some a"
    using reg conv
    by (simp_all add: m_def tp_def ctor_TypedPointer_def shm_deserialize_TypedPointer_def
        shm_deserialize_def ShmDeserialize_of_def RefNoShm_T_Ref_def
        RefNoShm_shm_deserialize_def Let_def mptr_def)
  have du: "deref uptr RefNoShm_T_Ref u h = Inr (constructed args)"
    using p live by (simp add: deref_def RefNoShm_T_Ref_def RefNoShm_deref_def RefNoShm_get_def)
  have dm: "deref mptr RefNoShm_T_Ref m h = Inr (constructed args)"
    using m_obj live
    by (simp add: deref_def RefNoShm_T_Ref_def RefNoShm_deref_def RefNoShm_get_def)
  have tm: "dtor mptr RefNoShm_T_Ref m g = Inr g" for g :: "'a memory"
    by (simp add: dtor_not_unique mptr_def)
  have dead: "objs hF p = None" by (simp add: hF_def)
  have su: "shm_destroy uptr RefNoShm_T_Ref u h = Inr (u, hF)"
    unfolding hF_def using p a st(1) live
    by (intro shm_destroy_NoShm_live) (simp_all add: uptr_def)
  have tu: "dtor uptr RefNoShm_T_Ref u h = Inr hF"
    using st(3) su by (simp add: dtor_owner uptr_def)
  have sm: "shm_destroy mptr RefNoShm_T_Ref m h = Inr (m, hF)"
    unfolding hF_def using m_obj m_alloc st(1) live
    by (intro shm_destroy_NoShm_live) (simp_all add: mptr_def)
  have su2: "shm_destroy uptr RefNoShm_T_Ref u hF = Inl InvalidFree"
    using p a st(1) dead
    by (intro shm_destroy_NoShm_dead [where p = p and a = a]) (simp_all add: uptr_def)
  have tu2: "dtor uptr RefNoShm_T_Ref u hF = Inl InvalidFree"
    using st(3) su2 by (simp add: dtor_owner uptr_def)
  have sm2: "shm_destroy mptr RefNoShm_T_Ref m hF = Inl InvalidFree"
    using m_obj m_alloc st(1) dead
    by (intro shm_destroy_NoShm_dead [where p = p and a = a]) (simp_all add: mptr_def)
  show ?thesis
    using ser ser_atomic m_atomic m_obj m_alloc du dm tm tu sm tu2 sm2
    unfolding tp_def m_def hF_def by auto
qed

theorem serialize_deserialize_roundtrip_witness:
  "shm_init uptr RefNoShm_T_Ref example_reg (Args 5)
      (smart_ptr_base_default uptr (RefNoShm_T_Ref :: int_backend)) empty_memory
     = Inr (example_owner, example_memory)
   \<and> GetAllocator example_reg (GetId example_alloc) = example_alloc
   \<and> Convert_off example_alloc (Convert example_alloc 4104) = 4104
   \<and> shm_serialize_TypedPointer uptr (RefNoShm_T_Ref :: int_backend) example_owner
        \<lparr>allocator_id = 0, off = 0\<rparr> = Inr \<lparr>allocator_id = 1, off = 8\<rparr>
   \<and> shm_serialize_TypedAtomicPointer uptr (RefNoShm_T_Ref :: int_backend) example_owner
        \<lparr>allocator_id = 0, off = 0\<rparr> = Inr \<lparr>allocator_id = 1, off = 8\<rparr>
   \<and> ctor_TypedPointer mptr (RefNoShm_T_Ref :: int_backend) example_reg
        \<lparr>allocator_id = 1, off = 8\<rparr> = example_manual
   \<and> ctor_TypedAtomicPointer mptr (RefNoShm_T_Ref :: int_backend) example_reg
        \<lparr>allocator_id = 1, off = 8\<rparr> = example_manual
   \<and> deref uptr RefNoShm_T_Ref example_owner example_memory = Inr 5
   \<and> deref mptr RefNoShm_T_Ref example_manual example_memory = Inr 5
   \<and> dtor mptr RefNoShm_T_Ref example_manual example_memory = Inr example_memory
   \<and> dtor uptr RefNoShm_T_Ref example_owner example_memory = Inr freed_memory
   \<and> dtor mptr RefNoShm_T_Ref example_manual freed_memory = Inr freed_memory"
  using serialize_deserialize_roundtrip [where h = example_memory and reg = example_reg
      and args = "Args 5"
      and ?w0.0 = "smart_ptr_base_default uptr (RefNoShm_T_Ref :: int_backend)"
      and ?h0.0 = empty_memory and u = example_owner and p = 4104 and a = example_alloc
      and ar = "\<lparr>allocator_id = 0, off = 0\<rparr>", OF example_init]
    example_init
  by (simp add: example_owner_def example_manual_def example_memory_def freed_memory_def
      example_alloc_def example_reg_def ctor_TypedPointer_def ctor_TypedAtomicPointer_def
      shm_deserialize_TypedPointer_def shm_deserialize_TypedAtomicPointer_def
      shm_deserialize_def ShmDeserialize_of_def RefNoShm_T_Ref_def
      RefNoShm_shm_deserialize_def smart_ptr_base_default_def RefNoShm_uninit_def mptr_def
      uptr_def dtor_def deref_def RefNoShm_deref_def RefNoShm_get_def shm_destroy_def
      RefNoShm_shm_destroy_def FreePtr_def nullptr_def shm_serialize_TypedPointer_def
      shm_serialize_TypedAtomicPointer_def RefNoShm_shm_serialize_def)

text \<open>
  The statement of C7 that the two wrappers can be destroyed independently without a
  double free fails: for the owner of the integer 5 and the manual pointer read back
  from its locator, the manual pointer's \<^verbatim>\<open>shm_destroy\<close> followed by the owner's
  destructor frees the object at 4104 twice, and so does the owner's destructor
  followed by the manual pointer's \<^verbatim>\<open>shm_destroy\<close>.
\<close>

theorem manual_destroy_and_owner_dtor_free_twice:
  "shm_init uptr RefNoShm_T_Ref example_reg (Args 5)
      (smart_ptr_base_default uptr (RefNoShm_T_Ref :: int_backend)) empty_memory
     = Inr (example_owner, example_memory)
   \<and> shm_serialize_TypedPointer uptr (RefNoShm_T_Ref :: int_backend) example_owner
        \<lparr>allocator_id = 0, off = 0\<rparr> = Inr \<lparr>allocator_id = 1, off = 8\<rparr>
   \<and> ctor_TypedPointer mptr (RefNoShm_T_Ref :: int_backend) example_reg
        \<lparr>allocator_id = 1, off = 8\<rparr> = example_manual
   \<and> shm_destroy mptr (RefNoShm_T_Ref :: int_backend) example_manual example_memory
       = Inr (example_manual, freed_memory)
   \<and> dtor uptr (RefNoShm_T_Ref :: int_backend) example_owner freed_memory = Inl InvalidFree
   \<and> dtor uptr (RefNoShm_T_Ref :: int_backend) example_owner example_memory = Inr freed_memory
   \<and> shm_destroy mptr (RefNoShm_T_Ref :: int_backend) example_manual freed_memory
       = Inl InvalidFree"
  using example_init
  by (simp add: example_owner_def example_manual_def example_memory_def freed_memory_def
      example_alloc_def example_reg_def ctor_TypedPointer_def
      shm_deserialize_TypedPointer_def shm_deserialize_def ShmDeserialize_of_def
      RefNoShm_T_Ref_def RefNoShm_shm_deserialize_def smart_ptr_base_default_def
      RefNoShm_uninit_def mptr_def uptr_def dtor_def shm_destroy_def
      RefNoShm_shm_destroy_def FreePtr_def nullptr_def shm_serialize_TypedPointer_def
      RefNoShm_shm_serialize_def)

end
